theory Spec2Isabelle
  imports Main "HOL-Library.AList"
begin

section \<open>Request bodies\<close>

text \<open>
  \<open>express.json()\<close> hands every handler of \<open>server.js\<close> the parsed JSON body, the empty
  object when the request carries none. A field that is missing reads as \<open>undefined\<close>,
  written \<open>None\<close> here. Numbers are only ever tested for not being strings, so an integer
  stands for them.
\<close>

datatype json =
    JNull
  | JBool bool
  | JNum int
  | JStr string
  | JArr "json list"
  | JObj "(string \<times> json) list"

text \<open>Property read \<open>b.k\<close>: only an object has the properties the handlers ask for.\<close>

fun field :: "json \<Rightarrow> string \<Rightarrow> json option" where
  "field (JObj kvs) k = map_of kvs k"
| "field _ k = None"

text \<open>Property assignment \<open>b.k = v\<close>: an existing key keeps its place, a new one goes last.\<close>

fun set_field :: "json \<Rightarrow> string \<Rightarrow> json \<Rightarrow> json" where
  "set_field (JObj kvs) k v = JObj (AList.update k v kvs)"
| "set_field b k v = b"

text \<open>JavaScript truthiness, as used by \<open>if (req.body.password)\<close>.\<close>

fun truthy :: "json \<Rightarrow> bool" where
  "truthy JNull = False"
| "truthy (JBool b) = b"
| "truthy (JNum n) = (n \<noteq> 0)"
| "truthy (JStr s) = (s \<noteq> [])"
| "truthy (JArr xs) = True"
| "truthy (JObj kvs) = True"

record request =
  params_id :: string
  body :: json

section \<open>Users, responses and the collaborators of the handlers\<close>

text \<open>
  Modelled from the spec: \<open>./models/user\<close> (the mongoose schema required on line 12) is not
  among the sources. The persisted record shape is taken from the spec's data model:
  \<open>{id, name, email, password (hash), role}\<close>, every field a text; the collection is the
  list of its documents in insertion order, and \<open>_id\<close> is its primary key.
\<close>

record user =
  u_id :: string
  u_name :: string
  u_email :: string
  u_password :: string
  u_role :: string

type_synonym store = "user list"

datatype store_op = Find | FindOne | FindById | Save | FindByIdAndUpdate | FindByIdAndDelete

text \<open>What an awaited call can throw.\<close>

datatype lower_error =
    StoreFailure
  | CastError
  | ValidationError
  | DuplicateKey
  | ImmutableField
  | IllegalArguments
  | MissingSecret

record jwt_claims =
  jwt_userId :: string
  jwt_role :: string
  jwt_iat :: nat
  jwt_exp :: nat

text \<open>
  The libraries and the surroundings of one request. The library functions are parameters:
  Joi's e-mail rule, the driver's ObjectId cast and its reading of a filter value that is
  not a string, bcrypt's hash and comparison, and the token encoding. The rest is what the
  request meets: the signing secret of the environment, the salt bcrypt draws, the clock in
  seconds, the ObjectId the driver generates for a new document, and which store calls
  fail in the lower layer.
\<close>

record env =
  isEmail :: "string \<Rightarrow> bool"
  castObjectId :: "string \<Rightarrow> string option"
  query_cast :: "json option \<Rightarrow> (string \<Rightarrow> bool) option"
  bcrypt_hash :: "string \<Rightarrow> string \<Rightarrow> string"
  bcrypt_compare :: "string \<Rightarrow> string \<Rightarrow> bool"
  jwt_encode :: "jwt_claims \<Rightarrow> string \<Rightarrow> string"
  JWT_SECRET :: "string option"
  salt :: string
  clock :: nat
  fresh_id :: string
  store_fails :: "store_op \<Rightarrow> bool"

datatype payload =
    Text string
  | UserDoc user
  | UserList "user list"
  | TokenDoc string

text \<open>
  \<open>Unhandled\<close>: an awaited call outside every \<open>try\<close> threw, so the handler's promise is
  rejected and the handler itself sends nothing.
\<close>

datatype response = Response nat payload | Unhandled

text \<open>The status code of a response, if one was sent.\<close>

fun status_of :: "response \<Rightarrow> nat option" where
  "status_of (Response code content) = Some code"
| "status_of Unhandled = None"

type_synonym handler = "request \<Rightarrow> store \<Rightarrow> response \<times> store"

section \<open>Validation schema (lines 25 to 30)\<close>

definition quoted :: "string \<Rightarrow> string" where
  "quoted k = CHR 0x22 # k @ [CHR 0x22]"

text \<open>\<open>Joi.string().required()\<close>: present, a string, not empty.\<close>

definition joi_string_required :: "string \<Rightarrow> json option \<Rightarrow> string option" where
  "joi_string_required k v =
     (case v of
        None \<Rightarrow> Some (quoted k @ '' is required'')
      | Some (JStr s) \<Rightarrow>
          (if s = [] then Some (quoted k @ '' is not allowed to be empty'') else None)
      | Some _ \<Rightarrow> Some (quoted k @ '' must be a string''))"

text \<open>\<open>Joi.string().email().required()\<close>.\<close>

definition joi_email_required :: "env \<Rightarrow> string \<Rightarrow> json option \<Rightarrow> string option" where
  "joi_email_required env k v =
     (case joi_string_required k v of
        Some m \<Rightarrow> Some m
      | None \<Rightarrow>
          (case v of
             Some (JStr s) \<Rightarrow>
               (if isEmail env s then None else Some (quoted k @ '' must be a valid email''))
           | _ \<Rightarrow> None))"

text \<open>\<open>Joi.string().valid("admin", "user").optional()\<close>.\<close>

definition joi_role_optional :: "string \<Rightarrow> json option \<Rightarrow> string option" where
  "joi_role_optional k v =
     (case v of
        None \<Rightarrow> None
      | Some w \<Rightarrow>
          (if w = JStr ''admin'' \<or> w = JStr ''user'' then None
           else Some (quoted k @ '' must be one of [admin, user]'')))"

definition schema_keys :: "string list" where
  "schema_keys = [''name'', ''email'', ''password'', ''role'']"

text \<open>A key outside the schema is refused.\<close>

definition joi_unknown_keys :: "(string \<times> json) list \<Rightarrow> string option" where
  "joi_unknown_keys kvs =
     (case List.find (\<lambda>k. k \<notin> set schema_keys) (map fst kvs) of
        None \<Rightarrow> None
      | Some k \<Rightarrow> Some (quoted k @ '' is not allowed''))"

fun first_error :: "string option list \<Rightarrow> string option" where
  "first_error [] = None"
| "first_error (Some m # rest) = Some m"
| "first_error (None # rest) = first_error rest"

text \<open>
  \<open>userValidationSchema.validate(req.body)\<close>: \<open>Some\<close> is \<open>error.details[0].message\<close>, the
  first failure in the order of the schema; \<open>None\<close> is no error.
\<close>

definition userValidationSchema :: "env \<Rightarrow> json \<Rightarrow> string option" where
  "userValidationSchema env b =
     (case b of
        JObj kvs \<Rightarrow>
          first_error
            [joi_string_required ''name'' (field b ''name''),
             joi_email_required env ''email'' (field b ''email''),
             joi_string_required ''password'' (field b ''password''),
             joi_role_optional ''role'' (field b ''role''),
             joi_unknown_keys kvs]
      | _ \<Rightarrow> Some (quoted ''value'' @ '' must be of type object''))"

section \<open>Role guard (lines 33 to 41)\<close>

definition checkRole :: "string \<Rightarrow> handler \<Rightarrow> handler" where
  "checkRole role next req st =
     (let userRole = field (body req) ''role''
      in if userRole \<noteq> Some (JStr role)
         then (Response 403 (Text ''Access denied.''), st)
         else next req st)"

section \<open>The store behind the \<open>User\<close> model\<close>

text \<open>
  The calls on \<open>User\<close> read and write the collection of the missing \<open>./models/user\<close>;
  each of the definitions below says what it takes from the spec. Each call throws when the lower layer fails or when the driver cannot
  cast its argument; otherwise it acts on the list of documents.
\<close>

text \<open>
  Modelled from the spec: the e-mail path of the missing \<open>./models/user\<close> is a text. The
  filter \<open>{ email }\<close>: a string selects the documents with exactly that e-mail; what
  any other value selects, or that it cannot be cast, is the driver's reading.
\<close>

definition email_filter :: "env \<Rightarrow> json option \<Rightarrow> (string \<Rightarrow> bool) option" where
  "email_filter env q =
     (case q of
        Some (JStr e) \<Rightarrow> Some (\<lambda>s. s = e)
      | _ \<Rightarrow> query_cast env q)"

text \<open>
  Modelled from the spec: \<open>User.findOne({ email })\<close> on the missing model gives the first
  document that the filter selects, or \<open>null\<close>.
\<close>

definition User_findOne :: "env \<Rightarrow> store \<Rightarrow> json option \<Rightarrow> lower_error + user option" where
  "User_findOne env st q =
     (if store_fails env FindOne then Inl StoreFailure
      else case email_filter env q of
             None \<Rightarrow> Inl CastError
           | Some P \<Rightarrow> Inr (List.find (\<lambda>u. P (u_email u)) st))"

text \<open>Modelled from the spec: \<open>User.find()\<close> on the missing model gives all documents.\<close>

definition User_find :: "env \<Rightarrow> store \<Rightarrow> lower_error + user list" where
  "User_find env st = (if store_fails env Find then Inl StoreFailure else Inr st)"

text \<open>
  Modelled from the spec: \<open>User.findById(id)\<close> on the missing model; the path parameter is
  cast to an ObjectId first, and ids are unique.
\<close>

definition User_findById :: "env \<Rightarrow> store \<Rightarrow> string \<Rightarrow> lower_error + user option" where
  "User_findById env st i =
     (if store_fails env FindById then Inl StoreFailure
      else case castObjectId env i of
             None \<Rightarrow> Inl CastError
           | Some oid \<Rightarrow> Inr (List.find (\<lambda>u. u_id u = oid) st))"

text \<open>
  Modelled from the spec: \<open>new User({name, email, password, role})\<close> builds a record of the
  missing model; the driver generates \<open>_id\<close>. A validated body
  carries strings only; any other value is reported as the document failing at \<open>save\<close>.
\<close>

definition User_new ::
  "env \<Rightarrow> json option \<Rightarrow> json option \<Rightarrow> string \<Rightarrow> json option \<Rightarrow> lower_error + user" where
  "User_new env name email password role =
     (case (name, email, role) of
        (Some (JStr n), Some (JStr e), Some (JStr r)) \<Rightarrow>
          Inr \<lparr>u_id = fresh_id env, u_name = n, u_email = e, u_password = password, u_role = r\<rparr>
      | _ \<Rightarrow> Inl ValidationError)"

text \<open>The document that \<open>new User\<close> builds from four strings.\<close>

abbreviation new_doc :: "env \<Rightarrow> string \<Rightarrow> string \<Rightarrow> string \<Rightarrow> string \<Rightarrow> user" where
  "new_doc env n e p r \<equiv>
     \<lparr>u_id = fresh_id env, u_name = n, u_email = e,
      u_password = bcrypt_hash env p (salt env), u_role = r\<rparr>"

text \<open>
  Modelled from the spec: \<open>user.save()\<close> on the missing model is an insert; the primary key
  refuses a second document with the same \<open>_id\<close>.
\<close>

definition User_save :: "env \<Rightarrow> store \<Rightarrow> lower_error + user \<Rightarrow> lower_error + store" where
  "User_save env st doc =
     (case doc of
        Inl err \<Rightarrow> Inl err
      | Inr u \<Rightarrow>
          (if store_fails env Save then Inl StoreFailure
           else if u_id u \<in> set (map u_id st) then Inl DuplicateKey
           else Inr (st @ [u])))"

text \<open>
  Modelled from the spec: the update document of \<open>findByIdAndUpdate\<close> on the missing
  model, whose \<open>id\<close> is immutable after creation: each path of the schema that the body names
  is set; a key outside the schema is dropped; \<open>_id\<close> may only be named with the value the
  document already has.
\<close>

definition set_path :: "json option \<Rightarrow> string \<Rightarrow> lower_error + string" where
  "set_path v old =
     (case v of
        None \<Rightarrow> Inr old
      | Some (JStr s) \<Rightarrow> Inr s
      | Some _ \<Rightarrow> Inl CastError)"

definition set_paths :: "json \<Rightarrow> user \<Rightarrow> lower_error + user" where
  "set_paths b u =
     (case (set_path (field b ''name'') (u_name u),
            set_path (field b ''email'') (u_email u),
            set_path (field b ''password'') (u_password u),
            set_path (field b ''role'') (u_role u)) of
        (Inr n, Inr e, Inr p, Inr r) \<Rightarrow>
          Inr (u\<lparr>u_name := n, u_email := e, u_password := p, u_role := r\<rparr>)
      | _ \<Rightarrow> Inl CastError)"

definition apply_update :: "json \<Rightarrow> user \<Rightarrow> lower_error + user" where
  "apply_update b u =
     (case field b ''_id'' of
        None \<Rightarrow> set_paths b u
      | Some v \<Rightarrow> (if v = JStr (u_id u) then set_paths b u else Inl ImmutableField))"

text \<open>
  Modelled from the spec: replacing and removing the first document with a given id in the
  collection of the missing model.
\<close>

fun replaceOne :: "string \<Rightarrow> user \<Rightarrow> store \<Rightarrow> store" where
  "replaceOne oid u' [] = []"
| "replaceOne oid u' (u # us) = (if u_id u = oid then u' # us else u # replaceOne oid u' us)"

fun deleteOne :: "string \<Rightarrow> store \<Rightarrow> store" where
  "deleteOne oid [] = []"
| "deleteOne oid (u # us) = (if u_id u = oid then us else u # deleteOne oid us)"

text \<open>
  Modelled from the spec: \<open>User.findByIdAndUpdate(id, body, { new: true })\<close> on the missing
  model replaces the fields of the one document with that id and gives the document after
  the update, or \<open>null\<close>.
\<close>

definition User_findByIdAndUpdate ::
  "env \<Rightarrow> store \<Rightarrow> string \<Rightarrow> json \<Rightarrow> lower_error + (user option \<times> store)" where
  "User_findByIdAndUpdate env st i b =
     (if store_fails env FindByIdAndUpdate then Inl StoreFailure
      else case castObjectId env i of
             None \<Rightarrow> Inl CastError
           | Some oid \<Rightarrow>
               (case List.find (\<lambda>u. u_id u = oid) st of
                  None \<Rightarrow> Inr (None, st)
                | Some u \<Rightarrow>
                    (case apply_update b u of
                       Inl err \<Rightarrow> Inl err
                     | Inr u' \<Rightarrow> Inr (Some u', replaceOne oid u' st))))"

text \<open>
  Modelled from the spec: \<open>User.findByIdAndDelete(id)\<close> on the missing model removes the
  one document with that id and gives it, or \<open>null\<close>.
\<close>

definition User_findByIdAndDelete ::
  "env \<Rightarrow> store \<Rightarrow> string \<Rightarrow> lower_error + (user option \<times> store)" where
  "User_findByIdAndDelete env st i =
     (if store_fails env FindByIdAndDelete then Inl StoreFailure
      else case castObjectId env i of
             None \<Rightarrow> Inl CastError
           | Some oid \<Rightarrow>
               (case List.find (\<lambda>u. u_id u = oid) st of
                  None \<Rightarrow> Inr (None, st)
                | Some u \<Rightarrow> Inr (Some u, deleteOne oid st)))"

section \<open>Password hashing and token signing as the handlers call them\<close>

text \<open>\<open>bcrypt.hash(s, 10)\<close> and \<open>bcrypt.compare(s, hash)\<close> reject an argument that is not a string.\<close>

definition bcrypt_hash_call :: "env \<Rightarrow> json option \<Rightarrow> lower_error + string" where
  "bcrypt_hash_call env v =
     (case v of
        Some (JStr p) \<Rightarrow> Inr (bcrypt_hash env p (salt env))
      | _ \<Rightarrow> Inl IllegalArguments)"

definition bcrypt_compare_call :: "env \<Rightarrow> json option \<Rightarrow> string \<Rightarrow> lower_error + bool" where
  "bcrypt_compare_call env v h =
     (case v of
        Some (JStr p) \<Rightarrow> Inr (bcrypt_compare env p h)
      | _ \<Rightarrow> Inl IllegalArguments)"

text \<open>
  \<open>jwt.sign({ userId, role }, process.env.JWT_SECRET, { expiresIn: "1h" })\<close>: the claims get
  the issue time and the expiry one hour (3600 seconds) later; a missing or empty secret
  throws.
\<close>

definition jwt_sign :: "env \<Rightarrow> string \<Rightarrow> string \<Rightarrow> lower_error + string" where
  "jwt_sign env uid r =
     (case JWT_SECRET env of
        None \<Rightarrow> Inl MissingSecret
      | Some k \<Rightarrow>
          (if k = [] then Inl MissingSecret
           else Inr (jwt_encode env
                  \<lparr>jwt_userId = uid, jwt_role = r, jwt_iat = clock env,
                    jwt_exp = clock env + 3600\<rparr> k)))"

section \<open>Route handlers\<close>

text \<open>\<open>GET /\<close> (lines 44 to 46).\<close>

definition get_root :: "handler" where
  "get_root req st = (Response 200 (Text ''Welcome to the backend server!''), st)"

text \<open>\<open>POST /create\<close> (lines 50 to 74): the part after the guard, then the route.\<close>

definition create_handler :: "env \<Rightarrow> handler" where
  "create_handler env req st =
     (case userValidationSchema env (body req) of
        Some message \<Rightarrow> (Response 400 (Text message), st)
      | None \<Rightarrow>
          (case User_findOne env st (field (body req) ''email'') of
             Inl err \<Rightarrow> (Unhandled, st)
           | Inr (Some existingUser) \<Rightarrow> (Response 400 (Text ''User already exists.''), st)
           | Inr None \<Rightarrow>
               (case bcrypt_hash_call env (field (body req) ''password'') of
                  Inl err \<Rightarrow> (Unhandled, st)
                | Inr hashedPassword \<Rightarrow>
                    (let doc = User_new env (field (body req) ''name'')
                                 (field (body req) ''email'') hashedPassword
                                 (field (body req) ''role'')
                     in case (User_save env st doc, doc) of
                          (Inr st', Inr u) \<Rightarrow> (Response 201 (UserDoc u), st')
                        | _ \<Rightarrow> (Response 400 (Text ''Error saving user.''), st)))))"

definition post_create :: "env \<Rightarrow> handler" where
  "post_create env = checkRole ''admin'' (create_handler env)"

text \<open>\<open>GET /all\<close> (lines 77 to 84).\<close>

definition get_all :: "env \<Rightarrow> handler" where
  "get_all env req st =
     (case User_find env st of
        Inr users \<Rightarrow> (Response 200 (UserList users), st)
      | Inl err \<Rightarrow> (Response 500 (Text ''Error retrieving users.''), st))"

text \<open>\<open>GET /byId/:id\<close> (lines 87 to 97).\<close>

definition get_byId :: "env \<Rightarrow> handler" where
  "get_byId env req st =
     (case User_findById env st (params_id req) of
        Inr None \<Rightarrow> (Response 404 (Text ''User not found.''), st)
      | Inr (Some u) \<Rightarrow> (Response 200 (UserDoc u), st)
      | Inl err \<Rightarrow> (Response 500 (Text ''Error retrieving user.''), st))"

text \<open>
  \<open>PUT /update/:id\<close> (lines 100 to 120). \<open>rehash\<close> is lines 107 to 109: a truthy password
  is replaced in the body by its hash, and that call is outside the \<open>try\<close>.
\<close>

definition rehash :: "env \<Rightarrow> json \<Rightarrow> lower_error + json" where
  "rehash env b =
     (case field b ''password'' of
        None \<Rightarrow> Inr b
      | Some v \<Rightarrow>
          (if truthy v
           then (case bcrypt_hash_call env (Some v) of
                   Inl err \<Rightarrow> Inl err
                 | Inr h \<Rightarrow> Inr (set_field b ''password'' (JStr h)))
           else Inr b))"

definition update_handler :: "env \<Rightarrow> handler" where
  "update_handler env req st =
     (case userValidationSchema env (body req) of
        Some message \<Rightarrow> (Response 400 (Text message), st)
      | None \<Rightarrow>
          (case rehash env (body req) of
             Inl err \<Rightarrow> (Unhandled, st)
           | Inr b' \<Rightarrow>
               (case User_findByIdAndUpdate env st (params_id req) b' of
                  Inr (None, st') \<Rightarrow> (Response 404 (Text ''User not found.''), st')
                | Inr (Some updatedUser, st') \<Rightarrow> (Response 200 (UserDoc updatedUser), st')
                | Inl err \<Rightarrow> (Response 500 (Text ''Error updating user.''), st))))"

definition put_update :: "env \<Rightarrow> handler" where
  "put_update env = checkRole ''admin'' (update_handler env)"

text \<open>\<open>DELETE /delete/:id\<close> (lines 123 to 133).\<close>

definition delete_handler :: "env \<Rightarrow> handler" where
  "delete_handler env req st =
     (case User_findByIdAndDelete env st (params_id req) of
        Inr (None, st') \<Rightarrow> (Response 404 (Text ''User not found.''), st')
      | Inr (Some deletedUser, st') \<Rightarrow> (Response 200 (Text ''User deleted.''), st')
      | Inl err \<Rightarrow> (Response 500 (Text ''Error deleting user.''), st))"

definition delete_delete :: "env \<Rightarrow> handler" where
  "delete_delete env = checkRole ''admin'' (delete_handler env)"

text \<open>\<open>POST /login\<close> (lines 136 to 159).\<close>

definition post_login :: "env \<Rightarrow> handler" where
  "post_login env req st =
     (case User_findOne env st (field (body req) ''email'') of
        Inl err \<Rightarrow> (Response 500 (Text ''Error logging in.''), st)
      | Inr None \<Rightarrow> (Response 400 (Text ''User not found.''), st)
      | Inr (Some u) \<Rightarrow>
          (case bcrypt_compare_call env (field (body req) ''password'') (u_password u) of
             Inl err \<Rightarrow> (Response 500 (Text ''Error logging in.''), st)
           | Inr isPasswordValid \<Rightarrow>
               (if \<not> isPasswordValid then (Response 400 (Text ''Invalid password.''), st)
                else (case jwt_sign env (u_id u) (u_role u) of
                        Inl err \<Rightarrow> (Response 500 (Text ''Error logging in.''), st)
                      | Inr token \<Rightarrow> (Response 200 (TokenDoc token), st)))))"

text \<open>The routes of the service.\<close>

datatype route = Root | Create | All | ById | Update | Delete | Login

fun handle :: "env \<Rightarrow> route \<Rightarrow> handler" where
  "handle env Root = get_root"
| "handle env Create = post_create env"
| "handle env All = get_all env"
| "handle env ById = get_byId env"
| "handle env Update = put_update env"
| "handle env Delete = delete_delete env"
| "handle env Login = post_login env"

section \<open>A concrete setting for the examples\<close>

text \<open>
  Stand-ins with the interface of the libraries, used only to evaluate the handlers on
  concrete requests: an address is accepted when it has an \<open>@\<close>, an ObjectId is 24
  hexadecimal digits, a hash is a tag, the salt and the plaintext, a token lists its claims.
\<close>

definition isObjectIdHex :: "string \<Rightarrow> string option" where
  "isObjectIdHex s =
     (if length s = 24 \<and> list_all (\<lambda>c. c \<in> set ''0123456789abcdef'') s then Some s else None)"

definition env0 :: env where
  "env0 =
     \<lparr>isEmail = (\<lambda>s. CHR ''@'' \<in> set s),
      castObjectId = isObjectIdHex,
      query_cast = (\<lambda>q. None),
      bcrypt_hash = (\<lambda>p s. ''$2a$10$'' @ s @ p),
      bcrypt_compare = (\<lambda>p h. take 7 h = ''$2a$10$'' \<and> drop 9 h = p),
      jwt_encode = (\<lambda>c k. jwt_userId c @ ''.'' @ jwt_role c @ ''.'' @ k),
      JWT_SECRET = Some ''s3cret'',
      salt = ''N9'',
      clock = 1000,
      fresh_id = ''0000000000000000000000b2'',
      store_fails = (\<lambda>call. False)\<rparr>"

definition env_down :: env where
  "env_down = env0\<lparr>store_fails := (\<lambda>call. True)\<rparr>"

definition env_save_down :: env where
  "env_save_down = env0\<lparr>store_fails := (\<lambda>call. call = Save)\<rparr>"

text \<open>
  The driver's reading of the filter value \<open>{"$gt": ""}\<close>: every string that is not empty
  is greater than the empty string. No other value that is not a string is read here.
\<close>

definition operator_query :: "json option \<Rightarrow> (string \<Rightarrow> bool) option" where
  "operator_query q =
     (if q = Some (JObj [(''$gt'', JStr [])]) then Some (\<lambda>s. s \<noteq> []) else None)"

definition env_ops :: env where
  "env_ops = env0\<lparr>query_cast := operator_query\<rparr>"

definition ann :: user where
  "ann =
     \<lparr>u_id = ''0000000000000000000000a1'', u_name = ''Ann'', u_email = ''a@x.com'',
      u_password = ''$2a$10$N9pw1'', u_role = ''admin''\<rparr>"

definition store0 :: store where
  "store0 = [ann]"

definition bob :: user where
  "bob =
     \<lparr>u_id = ''0000000000000000000000b2'', u_name = ''Bob'', u_email = ''b@x.com'',
      u_password = ''$2a$10$N9pw2'', u_role = ''admin''\<rparr>"

definition bob_body :: "string \<Rightarrow> json" where
  "bob_body r =
     JObj [(''name'', JStr ''Bob''), (''email'', JStr ''b@x.com''),
           (''password'', JStr ''pw2''), (''role'', JStr r)]"

definition ann_body :: "string \<Rightarrow> json" where
  "ann_body r =
     JObj [(''name'', JStr ''Ann B''), (''email'', JStr ''a@x.com''),
           (''password'', JStr ''pw9''), (''role'', JStr r)]"

definition partial_body :: json where
  "partial_body = JObj [(''email'', JStr ''ann@y.org''), (''role'', JStr ''admin'')]"

definition login_body :: "string \<Rightarrow> json" where
  "login_body p = JObj [(''email'', JStr ''a@x.com''), (''password'', JStr p)]"

definition operator_body :: json where
  "operator_body = JObj [(''email'', JObj [(''$gt'', JStr [])]), (''password'', JStr ''pw1'')]"

definition admin_only_body :: json where
  "admin_only_body = JObj [(''role'', JStr ''admin'')]"

definition bad_body :: json where
  "bad_body = JObj [(''email'', JStr ''nobody''), (''role'', JStr ''guest'')]"

text \<open>A request that names Ann's document in its path.\<close>

definition ann_req :: "json \<Rightarrow> request" where
  "ann_req b = \<lparr>params_id = ''0000000000000000000000a1'', body = b\<rparr>"

text \<open>The definitions to unfold when a handler is run on a concrete request.\<close>

lemmas run_defs =
  post_create_def put_update_def delete_delete_def checkRole_def
  create_handler_def update_handler_def delete_handler_def get_byId_def get_all_def
  post_login_def rehash_def
  userValidationSchema_def joi_string_required_def joi_email_required_def
  joi_role_optional_def joi_unknown_keys_def schema_keys_def quoted_def
  User_findOne_def email_filter_def User_find_def User_findById_def User_new_def
  User_save_def User_findByIdAndUpdate_def User_findByIdAndDelete_def
  apply_update_def set_paths_def set_path_def bcrypt_hash_call_def bcrypt_compare_call_def jwt_sign_def
  env0_def env_down_def env_save_down_def env_ops_def operator_query_def isObjectIdHex_def ann_def bob_def store0_def
  ann_req_def ann_body_def bob_body_def partial_body_def login_body_def bad_body_def
  operator_body_def admin_only_body_def

section \<open>Facts about the collaborators\<close>

lemma checkRole_denied:
  "field (body req) ''role'' \<noteq> Some (JStr r) \<Longrightarrow>
   checkRole r next req st = (Response 403 (Text ''Access denied.''), st)"
  by (simp add: checkRole_def)

lemma checkRole_passed:
  "field (body req) ''role'' = Some (JStr r) \<Longrightarrow> checkRole r next req st = next req st"
  by (simp add: checkRole_def)

lemma joi_string_required_None:
  "joi_string_required k v = None \<Longrightarrow> \<exists>s. v = Some (JStr s) \<and> s \<noteq> []"
  by (auto simp: joi_string_required_def split: option.splits json.splits if_splits)

lemma joi_email_required_None:
  "joi_email_required env k v = None \<Longrightarrow> \<exists>s. v = Some (JStr s) \<and> s \<noteq> [] \<and> isEmail env s"
  by (auto simp: joi_email_required_def dest!: joi_string_required_None
      split: option.splits if_splits)

lemma first_error_None: "first_error ms = None \<Longrightarrow> m \<in> set ms \<Longrightarrow> m = None"
  by (induction ms rule: first_error.induct) auto

text \<open>What a body that passes the schema looks like.\<close>

lemma valid_body:
  assumes "userValidationSchema env b = None"
  shows "\<exists>kvs n e p.
           b = JObj kvs \<and>
           field b ''name'' = Some (JStr n) \<and> n \<noteq> [] \<and>
           field b ''email'' = Some (JStr e) \<and> e \<noteq> [] \<and> isEmail env e \<and>
           field b ''password'' = Some (JStr p) \<and> p \<noteq> [] \<and>
           joi_role_optional ''role'' (field b ''role'') = None \<and>
           joi_unknown_keys kvs = None"
proof (cases b)
  case (JObj kvs)
  let ?ms = "[joi_string_required ''name'' (field b ''name''),
             joi_email_required env ''email'' (field b ''email''),
             joi_string_required ''password'' (field b ''password''),
             joi_role_optional ''role'' (field b ''role''),
             joi_unknown_keys kvs]"
  from assms JObj have fe: "first_error ?ms = None"
    by (simp add: userValidationSchema_def)
  have n: "joi_string_required ''name'' (field b ''name'') = None"
    by (rule first_error_None [OF fe]) simp
  have e: "joi_email_required env ''email'' (field b ''email'') = None"
    by (rule first_error_None [OF fe]) simp
  have p: "joi_string_required ''password'' (field b ''password'') = None"
    by (rule first_error_None [OF fe]) simp
  have r: "joi_role_optional ''role'' (field b ''role'') = None"
    by (rule first_error_None [OF fe]) simp
  have u: "joi_unknown_keys kvs = None"
    by (rule first_error_None [OF fe]) simp
  from joi_string_required_None [OF n] joi_email_required_None [OF e]
    joi_string_required_None [OF p] r u JObj
  show ?thesis by blast
qed (use assms in \<open>simp_all add: userValidationSchema_def\<close>)

section \<open>The role guard\<close>

text \<open>
  C1. A request to \<open>POST /create\<close>, \<open>PUT /update/:id\<close> or \<open>DELETE /delete/:id\<close> whose body
  role is not exactly the string \<open>admin\<close> (another string, another JSON value, or no role
  at all) is answered with 403 "Access denied." and leaves the store as it was, whatever
  the rest of the payload, the path and the surroundings are.
\<close>

theorem guard_denies_non_admin:
  assumes "field (body req) ''role'' \<noteq> Some (JStr ''admin'')"
  shows "post_create env req st = (Response 403 (Text ''Access denied.''), st) \<and>
         put_update env req st = (Response 403 (Text ''Access denied.''), st) \<and>
         delete_delete env req st = (Response 403 (Text ''Access denied.''), st)"
  using assms by (simp add: post_create_def put_update_def delete_delete_def checkRole_denied)

text \<open>A payload that is valid apart from its role \<open>user\<close>, sent to all three routes.\<close>

theorem guard_denies_non_admin_witness:
  "field (body (ann_req (ann_body ''user''))) ''role'' \<noteq> Some (JStr ''admin'') \<and>
   post_create env0 (ann_req (ann_body ''user'')) store0
     = (Response 403 (Text ''Access denied.''), store0) \<and>
   put_update env0 (ann_req (ann_body ''user'')) store0
     = (Response 403 (Text ''Access denied.''), store0) \<and>
   delete_delete env0 (ann_req (ann_body ''user'')) store0
     = (Response 403 (Text ''Access denied.''), store0)"
  using guard_denies_non_admin [of "ann_req (ann_body ''user'')" env0 store0]
  by (simp add: ann_req_def ann_body_def)

text \<open>
  C10. On \<open>POST /create\<close> and \<open>PUT /update/:id\<close> the guard runs before the schema: when
  the payload is invalid, a body whose role is not \<open>admin\<close> is answered 403, and only a body
  with role \<open>admin\<close> gets the 400 with the validation message. Nothing is written either way.
\<close>

theorem guard_before_validation:
  assumes invalid: "userValidationSchema env (body req) = Some m"
  shows "(field (body req) ''role'' \<noteq> Some (JStr ''admin'') \<longrightarrow>
            post_create env req st = (Response 403 (Text ''Access denied.''), st) \<and>
            put_update env req st = (Response 403 (Text ''Access denied.''), st)) \<and>
         (field (body req) ''role'' = Some (JStr ''admin'') \<longrightarrow>
            post_create env req st = (Response 400 (Text m), st) \<and>
            put_update env req st = (Response 400 (Text m), st))"
  using invalid
  by (simp add: post_create_def put_update_def checkRole_def create_handler_def
      update_handler_def)

text \<open>Both halves on bodies without a name: role \<open>guest\<close> gives 403, role \<open>admin\<close> gives 400.\<close>

theorem guard_before_validation_witness:
  "userValidationSchema env0 (body (ann_req bad_body)) = Some (quoted ''name'' @ '' is required'') \<and>
   field (body (ann_req bad_body)) ''role'' \<noteq> Some (JStr ''admin'') \<and>
   post_create env0 (ann_req bad_body) store0 = (Response 403 (Text ''Access denied.''), store0) \<and>
   put_update env0 (ann_req bad_body) store0 = (Response 403 (Text ''Access denied.''), store0) \<and>
   userValidationSchema env0 (body (ann_req partial_body)) = Some (quoted ''name'' @ '' is required'') \<and>
   field (body (ann_req partial_body)) ''role'' = Some (JStr ''admin'') \<and>
   post_create env0 (ann_req partial_body) store0
     = (Response 400 (Text (quoted ''name'' @ '' is required'')), store0) \<and>
   put_update env0 (ann_req partial_body) store0
     = (Response 400 (Text (quoted ''name'' @ '' is required'')), store0)"
proof -
  have a: "userValidationSchema env0 (body (ann_req bad_body))
             = Some (quoted ''name'' @ '' is required'')"
    by (simp add: run_defs)
  have b: "field (body (ann_req bad_body)) ''role'' \<noteq> Some (JStr ''admin'')"
    by (simp add: ann_req_def bad_body_def)
  have c: "userValidationSchema env0 (body (ann_req partial_body))
             = Some (quoted ''name'' @ '' is required'')"
    by (simp add: run_defs)
  have d: "field (body (ann_req partial_body)) ''role'' = Some (JStr ''admin'')"
    by (simp add: ann_req_def partial_body_def)
  from guard_before_validation [OF a, of store0] guard_before_validation [OF c, of store0]
    a b c d
  show ?thesis by blast
qed

section \<open>Creating a user\<close>

text \<open>After the guard and the schema, \<open>POST /create\<close> is a lookup and an insert.\<close>

lemma create_handler_valid:
  assumes valid: "userValidationSchema env (body req) = None"
    and r: "field (body req) ''role'' = Some (JStr r)"
  shows "\<exists>n e p.
    field (body req) ''name'' = Some (JStr n) \<and>
    field (body req) ''email'' = Some (JStr e) \<and>
    field (body req) ''password'' = Some (JStr p) \<and>
    create_handler env req st =
      (case User_findOne env st (Some (JStr e)) of
         Inl err \<Rightarrow> (Unhandled, st)
       | Inr (Some existingUser) \<Rightarrow> (Response 400 (Text ''User already exists.''), st)
       | Inr None \<Rightarrow>
           (if store_fails env Save \<or> fresh_id env \<in> set (map u_id st)
            then (Response 400 (Text ''Error saving user.''), st)
            else (Response 201 (UserDoc (new_doc env n e p r)), st @ [new_doc env n e p r])))"
proof -
  from valid_body [OF valid] obtain n e p where
    f: "field (body req) ''name'' = Some (JStr n)"
       "field (body req) ''email'' = Some (JStr e)"
       "field (body req) ''password'' = Some (JStr p)"
    by blast
  have "create_handler env req st =
      (case User_findOne env st (Some (JStr e)) of
         Inl err \<Rightarrow> (Unhandled, st)
       | Inr (Some existingUser) \<Rightarrow> (Response 400 (Text ''User already exists.''), st)
       | Inr None \<Rightarrow>
           (if store_fails env Save \<or> fresh_id env \<in> set (map u_id st)
            then (Response 400 (Text ''Error saving user.''), st)
            else (Response 201 (UserDoc (new_doc env n e p r)), st @ [new_doc env n e p r])))"
    by (simp add: create_handler_def valid f r bcrypt_hash_call_def User_new_def User_save_def
        split: sum.splits option.splits)
  with f show ?thesis by blast
qed

lemma User_findOne_string:
  "User_findOne env st (Some (JStr e)) =
     (if store_fails env FindOne then Inl StoreFailure
      else Inr (List.find (\<lambda>u. u_email u = e) st))"
  by (simp add: User_findOne_def email_filter_def)

lemma find_email_None: "List.find (\<lambda>u. u_email u = e) st = None \<longleftrightarrow> e \<notin> set (map u_email st)"
  by (auto simp: find_None_iff)

text \<open>Either nothing is written and the status is not 201, or one document is appended.\<close>

lemma create_handler_outcome:
  assumes r: "field (body req) ''role'' = Some (JStr r)"
    and res: "create_handler env req st = (resp, st')"
  shows "st' = st \<and> status_of resp \<noteq> Some 201 \<or>
         (\<exists>u. st' = st @ [u] \<and> resp = Response 201 (UserDoc u) \<and> u_role u = r \<and>
              (\<exists>p. field (body req) ''password'' = Some (JStr p) \<and>
                   u_password u = bcrypt_hash env p (salt env)))"
proof (cases "userValidationSchema env (body req)")
  case (Some m)
  with res show ?thesis by (auto simp: create_handler_def)
next
  case None
  from create_handler_valid [OF None r, of st] obtain n e p where
    pw: "field (body req) ''password'' = Some (JStr p)" and
    eq: "create_handler env req st =
      (case User_findOne env st (Some (JStr e)) of
         Inl err \<Rightarrow> (Unhandled, st)
       | Inr (Some existingUser) \<Rightarrow> (Response 400 (Text ''User already exists.''), st)
       | Inr None \<Rightarrow>
           (if store_fails env Save \<or> fresh_id env \<in> set (map u_id st)
            then (Response 400 (Text ''Error saving user.''), st)
            else (Response 201 (UserDoc (new_doc env n e p r)), st @ [new_doc env n e p r])))"
    by blast
  show ?thesis
  proof (cases "User_findOne env st (Some (JStr e))")
    case (Inl err)
    with eq res show ?thesis by simp
  next
    case (Inr found)
    show ?thesis
    proof (cases found)
      case (Some existingUser)
      with Inr eq res show ?thesis by simp
    next
      case None
      with Inr eq res pw show ?thesis
        by (cases "store_fails env Save \<or> fresh_id env \<in> set (map u_id st)") auto
    qed
  qed
qed

text \<open>
  C9. Whatever \<open>POST /create\<close> is sent, either the store is unchanged and the status is not
  201, or exactly one document is appended, it is the one returned with 201, and its role is
  \<open>admin\<close>: no request creates a user with role \<open>user\<close> or without a role.
\<close>

theorem created_user_is_admin:
  assumes res: "post_create env req st = (resp, st')"
  shows "st' = st \<and> status_of resp \<noteq> Some 201 \<or>
         (\<exists>u. st' = st @ [u] \<and> resp = Response 201 (UserDoc u) \<and> u_role u = ''admin'')"
proof (cases "field (body req) ''role'' = Some (JStr ''admin'')")
  case True
  with res have "create_handler env req st = (resp, st')"
    by (simp add: post_create_def checkRole_passed)
  from create_handler_outcome [OF True this] show ?thesis by blast
next
  case False
  with res show ?thesis by (auto simp: post_create_def checkRole_denied)
qed

theorem created_user_is_admin_witness:
  "post_create env0 (ann_req (bob_body ''admin'')) store0 = (Response 201 (UserDoc bob), store0 @ [bob]) \<and>
   u_role bob = ''admin''"
proof -
  have run: "post_create env0 (ann_req (bob_body ''admin'')) store0
               = (Response 201 (UserDoc bob), store0 @ [bob])"
    by (simp add: run_defs)
  from created_user_is_admin [OF run] run show ?thesis by auto
qed

text \<open>
  C3. For a payload that passes the schema, sent to \<open>POST /create\<close> with role \<open>admin\<close>: if
  a user is persisted, its password field is the value \<open>bcrypt.hash\<close> returned for the
  payload's password. Given bcrypt's contract at that password and salt (the hash verifies
  against the plaintext and is not the plaintext), the stored field differs from the
  payload's password and \<open>bcrypt.compare\<close> of the password with it succeeds. The user is
  persisted whenever the store calls do not fail, the e-mail is unused and the generated id
  is new.
\<close>

theorem create_persists_hash:
  assumes role: "field (body req) ''role'' = Some (JStr ''admin'')"
    and valid: "userValidationSchema env (body req) = None"
    and pw: "field (body req) ''password'' = Some (JStr p)"
    and em: "field (body req) ''email'' = Some (JStr e)"
    and verify: "bcrypt_compare env p (bcrypt_hash env p (salt env))"
    and oneway: "bcrypt_hash env p (salt env) \<noteq> p"
    and res: "post_create env req st = (resp, st')"
  shows "(st' = st \<and> status_of resp \<noteq> Some 201 \<or>
          (\<exists>u. st' = st @ [u] \<and> resp = Response 201 (UserDoc u) \<and>
               u_password u = bcrypt_hash env p (salt env) \<and>
               u_password u \<noteq> p \<and> bcrypt_compare env p (u_password u))) \<and>
         (\<not> store_fails env FindOne \<and> \<not> store_fails env Save \<and>
          e \<notin> set (map u_email st) \<and> fresh_id env \<notin> set (map u_id st)
            \<longrightarrow> status_of resp = Some 201)"
proof
  from res role have ch: "create_handler env req st = (resp, st')"
    by (simp add: post_create_def checkRole_passed)
  from create_handler_outcome [OF role ch] pw verify oneway
  show "st' = st \<and> status_of resp \<noteq> Some 201 \<or>
          (\<exists>u. st' = st @ [u] \<and> resp = Response 201 (UserDoc u) \<and>
               u_password u = bcrypt_hash env p (salt env) \<and>
               u_password u \<noteq> p \<and> bcrypt_compare env p (u_password u))"
    by auto
  show "\<not> store_fails env FindOne \<and> \<not> store_fails env Save \<and>
          e \<notin> set (map u_email st) \<and> fresh_id env \<notin> set (map u_id st)
            \<longrightarrow> status_of resp = Some 201"
  proof
    assume ok: "\<not> store_fails env FindOne \<and> \<not> store_fails env Save \<and>
          e \<notin> set (map u_email st) \<and> fresh_id env \<notin> set (map u_id st)"
    then have none: "User_findOne env st (Some (JStr e)) = Inr None"
      using find_email_None [of e st] by (simp add: User_findOne_string)
    from create_handler_valid [OF valid role, of st] em obtain n p' where
      "create_handler env req st =
        (case User_findOne env st (Some (JStr e)) of
           Inl err \<Rightarrow> (Unhandled, st)
         | Inr (Some existingUser) \<Rightarrow> (Response 400 (Text ''User already exists.''), st)
         | Inr None \<Rightarrow>
             (if store_fails env Save \<or> fresh_id env \<in> set (map u_id st)
              then (Response 400 (Text ''Error saving user.''), st)
              else (Response 201 (UserDoc (new_doc env n e p' ''admin'')),
                    st @ [new_doc env n e p' ''admin''])))"
      by auto
    with ch none ok show "status_of resp = Some 201"
      by auto
  qed
qed

theorem create_persists_hash_witness:
  "field (body (ann_req (bob_body ''admin''))) ''role'' = Some (JStr ''admin'') \<and>
   userValidationSchema env0 (body (ann_req (bob_body ''admin''))) = None \<and>
   field (body (ann_req (bob_body ''admin''))) ''password'' = Some (JStr ''pw2'') \<and>
   bcrypt_compare env0 ''pw2'' (bcrypt_hash env0 ''pw2'' (salt env0)) \<and>
   bcrypt_hash env0 ''pw2'' (salt env0) \<noteq> ''pw2'' \<and>
   post_create env0 (ann_req (bob_body ''admin'')) store0
     = (Response 201 (UserDoc bob), store0 @ [bob]) \<and>
   u_password bob \<noteq> ''pw2'' \<and> bcrypt_compare env0 ''pw2'' (u_password bob)"
proof -
  have role: "field (body (ann_req (bob_body ''admin''))) ''role'' = Some (JStr ''admin'')"
    by (simp add: ann_req_def bob_body_def)
  have valid: "userValidationSchema env0 (body (ann_req (bob_body ''admin''))) = None"
    by (simp add: run_defs)
  have pw: "field (body (ann_req (bob_body ''admin''))) ''password'' = Some (JStr ''pw2'')"
    by (simp add: ann_req_def bob_body_def)
  have em: "field (body (ann_req (bob_body ''admin''))) ''email'' = Some (JStr ''b@x.com'')"
    by (simp add: ann_req_def bob_body_def)
  have verify: "bcrypt_compare env0 ''pw2'' (bcrypt_hash env0 ''pw2'' (salt env0))"
    by (simp add: env0_def)
  have oneway: "bcrypt_hash env0 ''pw2'' (salt env0) \<noteq> ''pw2''"
    by (simp add: env0_def)
  have run: "post_create env0 (ann_req (bob_body ''admin'')) store0
               = (Response 201 (UserDoc bob), store0 @ [bob])"
    by (simp add: run_defs)
  from create_persists_hash [OF role valid pw em verify oneway run] role valid pw verify oneway run
  show ?thesis by auto
qed

text \<open>
  C2 (as amended). When the e-mail of the body is already the e-mail of a stored user,
  \<open>POST /create\<close> inserts nothing, whatever the other fields are. The answer is 400
  "User already exists." when the body has role \<open>admin\<close>, passes the schema and the lookup
  does not fail; the guard (403) and the schema (400 with its own message) come first.
\<close>

theorem duplicate_email_rejected:
  assumes em: "field (body req) ''email'' = Some (JStr e)"
    and present: "e \<in> set (map u_email st)"
  shows "snd (post_create env req st) = st \<and>
         (field (body req) ''role'' = Some (JStr ''admin'') \<and>
          userValidationSchema env (body req) = None \<and> \<not> store_fails env FindOne
            \<longrightarrow> post_create env req st = (Response 400 (Text ''User already exists.''), st))"
proof (cases "field (body req) ''role'' = Some (JStr ''admin'')")
  case False
  then show ?thesis by (simp add: post_create_def checkRole_denied)
next
  case role: True
  then have pc: "post_create env req st = create_handler env req st"
    by (simp add: post_create_def checkRole_passed)
  show ?thesis
  proof (cases "userValidationSchema env (body req)")
    case (Some m)
    then show ?thesis by (simp add: pc create_handler_def)
  next
    case None
    from present obtain u where found: "List.find (\<lambda>u. u_email u = e) st = Some u"
      using find_email_None [of e st] by auto
    from create_handler_valid [OF None role, of st] em obtain n p where
      "create_handler env req st =
        (case User_findOne env st (Some (JStr e)) of
           Inl err \<Rightarrow> (Unhandled, st)
         | Inr (Some existingUser) \<Rightarrow> (Response 400 (Text ''User already exists.''), st)
         | Inr None \<Rightarrow>
             (if store_fails env Save \<or> fresh_id env \<in> set (map u_id st)
              then (Response 400 (Text ''Error saving user.''), st)
              else (Response 201 (UserDoc (new_doc env n e p ''admin'')),
                    st @ [new_doc env n e p ''admin''])))"
      by auto
    with found show ?thesis
      by (simp add: pc User_findOne_string)
  qed
qed

theorem duplicate_email_rejected_witness:
  "field (body (ann_req (ann_body ''admin''))) ''email'' = Some (JStr ''a@x.com'') \<and>
   ''a@x.com'' \<in> set (map u_email store0) \<and>
   field (body (ann_req (ann_body ''admin''))) ''role'' = Some (JStr ''admin'') \<and>
   userValidationSchema env0 (body (ann_req (ann_body ''admin''))) = None \<and>
   \<not> store_fails env0 FindOne \<and>
   post_create env0 (ann_req (ann_body ''admin'')) store0
     = (Response 400 (Text ''User already exists.''), store0)"
proof -
  have em: "field (body (ann_req (ann_body ''admin''))) ''email'' = Some (JStr ''a@x.com'')"
    by (simp add: ann_req_def ann_body_def)
  have present: "''a@x.com'' \<in> set (map u_email store0)"
    by (simp add: store0_def ann_def)
  have rest: "field (body (ann_req (ann_body ''admin''))) ''role'' = Some (JStr ''admin'') \<and>
     userValidationSchema env0 (body (ann_req (ann_body ''admin''))) = None \<and>
     \<not> store_fails env0 FindOne"
    by (simp add: run_defs)
  from duplicate_email_rejected [OF em present, of env0] em present rest show ?thesis by blast
qed

text \<open>
  C2 as stated fails: Ann's e-mail is in the store, the other fields are valid, and the role
  is \<open>user\<close>; the answer is 403 "Access denied.", not 400 "User already exists.".
\<close>

theorem duplicate_email_counterexample:
  "User_findOne env0 store0 (field (body (ann_req (ann_body ''user''))) ''email'') = Inr (Some ann) \<and>
   post_create env0 (ann_req (ann_body ''user'')) store0
     = (Response 403 (Text ''Access denied.''), store0) \<and>
   post_create env0 (ann_req (ann_body ''user'')) store0
     \<noteq> (Response 400 (Text ''User already exists.''), store0)"
  by (simp add: run_defs)

section \<open>Identifiers\<close>

text \<open>An update never names a different \<open>_id\<close>, and replaces the document in place.\<close>

lemma apply_update_id: "apply_update b u = Inr u' \<Longrightarrow> u_id u' = u_id u"
  by (auto simp: apply_update_def set_paths_def split: option.splits if_splits sum.splits)

lemma find_id_Some: "List.find (\<lambda>u. u_id u = oid) st = Some u \<Longrightarrow> u_id u = oid \<and> u \<in> set st"
  by (auto simp: find_Some_iff)

lemma replaceOne_ids: "u_id u' = oid \<Longrightarrow> map u_id (replaceOne oid u' st) = map u_id st"
  by (induction st) auto

lemma User_findByIdAndUpdate_ids:
  assumes "User_findByIdAndUpdate env st i b = Inr (r, st')"
  shows "map u_id st' = map u_id st"
  using assms
  by (auto simp: User_findByIdAndUpdate_def replaceOne_ids
      dest!: apply_update_id find_id_Some split: if_splits option.splits sum.splits)

lemma update_handler_ids: "map u_id (snd (update_handler env req st)) = map u_id st"
proof (cases "userValidationSchema env (body req)")
  case (Some m)
  then show ?thesis by (simp add: update_handler_def)
next
  case None
  show ?thesis
  proof (cases "rehash env (body req)")
    case (Inl err)
    with None show ?thesis by (simp add: update_handler_def)
  next
    case (Inr b')
    show ?thesis
    proof (cases "User_findByIdAndUpdate env st (params_id req) b'")
      case (Inl err)
      with None Inr show ?thesis by (simp add: update_handler_def)
    next
      case found: (Inr res)
      obtain r st' where res: "res = (r, st')" by (cases res)
      with found have "map u_id st' = map u_id st"
        by (auto dest: User_findByIdAndUpdate_ids)
      with None Inr found res show ?thesis
        by (cases r) (simp_all add: update_handler_def)
    qed
  qed
qed

lemma put_update_ids: "map u_id (snd (put_update env req st)) = map u_id st"
  by (simp add: put_update_def checkRole_def Let_def update_handler_ids)

text \<open>What the other routes do to the store.\<close>

lemma delete_handler_store:
  "snd (delete_handler env req st) = st \<or> (\<exists>oid. snd (delete_handler env req st) = deleteOne oid st)"
  by (auto simp: delete_handler_def User_findByIdAndDelete_def split: option.splits)

lemma post_login_store: "snd (post_login env req st) = st"
  by (simp add: post_login_def split: sum.splits option.splits)

lemma get_byId_store: "snd (get_byId env req st) = st"
  by (simp add: get_byId_def split: sum.splits option.splits)

lemma get_all_store: "snd (get_all env req st) = st"
  by (simp add: get_all_def split: sum.splits)

lemma post_create_store:
  "snd (post_create env req st) = st \<or> (\<exists>u. snd (post_create env req st) = st @ [u])"
proof (cases "field (body req) ''role'' = Some (JStr ''admin'')")
  case True
  from create_handler_outcome [OF True, of env st] True show ?thesis
    by (cases "create_handler env req st") (auto simp: post_create_def checkRole_passed)
next
  case False
  then show ?thesis by (simp add: post_create_def checkRole_denied)
qed

text \<open>A body that names \<open>_id\<close>, or any key outside the schema, does not pass the schema.\<close>

lemma unknown_key_refused:
  assumes "field b k \<noteq> None" and "k \<notin> set schema_keys"
  shows "userValidationSchema env b \<noteq> None"
proof
  assume "userValidationSchema env b = None"
  from valid_body [OF this] obtain kvs where b: "b = JObj kvs" and u: "joi_unknown_keys kvs = None"
    by blast
  from assms(1) b have "k \<in> set (map fst kvs)"
    by (auto simp: map_of_eq_None_iff)
  with assms(2) have "List.find (\<lambda>k. k \<notin> set schema_keys) (map fst kvs) \<noteq> None"
    unfolding find_None_iff by blast
  with u show False by (auto simp: joi_unknown_keys_def split: option.splits)
qed

text \<open>
  C8. The id of a record never changes. \<open>PUT /update/:id\<close> leaves the list of ids of the
  store as it was, position by position, whatever the body, the path and the outcome are.
  Every route either keeps the ids in place, or appends one new document after the existing
  ones (create), or removes one document and keeps the others (delete).
\<close>

theorem id_immutable:
  "map u_id (snd (put_update env req st)) = map u_id st \<and>
   (map u_id (snd (handle env r req st)) = map u_id st \<or>
    (\<exists>u. snd (handle env r req st) = st @ [u]) \<or>
    (\<exists>oid. snd (handle env r req st) = deleteOne oid st))"
proof
  show "map u_id (snd (put_update env req st)) = map u_id st"
    by (rule put_update_ids)
  show "map u_id (snd (handle env r req st)) = map u_id st \<or>
    (\<exists>u. snd (handle env r req st) = st @ [u]) \<or>
    (\<exists>oid. snd (handle env r req st) = deleteOne oid st)"
  proof (cases r)
    case Root
    then show ?thesis by (simp add: get_root_def)
  next
    case Create
    with post_create_store [of env req st] show ?thesis by auto
  next
    case All
    then show ?thesis by (simp add: get_all_store)
  next
    case ById
    then show ?thesis by (simp add: get_byId_store)
  next
    case Update
    then show ?thesis by (simp add: put_update_ids)
  next
    case Delete
    have "snd (delete_delete env req st) = st \<or>
          (\<exists>oid. snd (delete_delete env req st) = deleteOne oid st)"
      using delete_handler_store [of env req st]
      by (auto simp: delete_delete_def checkRole_def Let_def)
    with Delete show ?thesis by auto
  next
    case Login
    then show ?thesis by (simp add: post_login_store)
  qed
qed

text \<open>On a body that changes the name and the password of Ann: both change, the id stays.\<close>

theorem id_immutable_witness:
  "put_update env0 (ann_req (ann_body ''admin'')) store0
     = (Response 200 (UserDoc (ann\<lparr>u_name := ''Ann B'', u_password := ''$2a$10$N9pw9''\<rparr>)),
        [ann\<lparr>u_name := ''Ann B'', u_password := ''$2a$10$N9pw9''\<rparr>]) \<and>
   map u_id (snd (put_update env0 (ann_req (ann_body ''admin'')) store0)) = map u_id store0"
proof -
  have run: "put_update env0 (ann_req (ann_body ''admin'')) store0
     = (Response 200 (UserDoc (ann\<lparr>u_name := ''Ann B'', u_password := ''$2a$10$N9pw9''\<rparr>)),
        [ann\<lparr>u_name := ''Ann B'', u_password := ''$2a$10$N9pw9''\<rparr>])"
    by (simp add: run_defs)
  from id_immutable [of env0 "ann_req (ann_body ''admin'')" store0 Update] run
  show ?thesis by simp
qed

section \<open>Updating a user\<close>

text \<open>A body that passes the schema has a password that is a non-empty string, so it is rehashed.\<close>

lemma rehash_valid:
  assumes valid: "userValidationSchema env b = None"
  shows "\<exists>p. field b ''password'' = Some (JStr p) \<and> p \<noteq> [] \<and>
             rehash env b = Inr (set_field b ''password'' (JStr (bcrypt_hash env p (salt env))))"
proof -
  from valid_body [OF valid] obtain p where
    "field b ''password'' = Some (JStr p)" "p \<noteq> []" by blast
  then show ?thesis by (simp add: rehash_def bcrypt_hash_call_def)
qed

lemma update_handler_valid:
  assumes valid: "userValidationSchema env (body req) = None"
  shows "\<exists>p. field (body req) ''password'' = Some (JStr p) \<and>
    update_handler env req st =
      (case User_findByIdAndUpdate env st (params_id req)
              (set_field (body req) ''password'' (JStr (bcrypt_hash env p (salt env)))) of
         Inr (None, st') \<Rightarrow> (Response 404 (Text ''User not found.''), st')
       | Inr (Some updatedUser, st') \<Rightarrow> (Response 200 (UserDoc updatedUser), st')
       | Inl err \<Rightarrow> (Response 500 (Text ''Error updating user.''), st))"
proof -
  from rehash_valid [OF valid] obtain p where
    "field (body req) ''password'' = Some (JStr p)"
    "rehash env (body req) = Inr (set_field (body req) ''password'' (JStr (bcrypt_hash env p (salt env))))"
    by blast
  with valid show ?thesis by (simp add: update_handler_def)
qed

text \<open>
  C6 (as amended). \<open>PUT /update/:id\<close> runs the same schema as create, where name, e-mail
  and password are required: a request with role \<open>admin\<close> whose body omits any of them is
  answered 400 with the message of the schema and nothing is written, and a request answered
  200 had all three as strings in its body. There is no partial update.
\<close>

theorem update_requires_all_fields:
  assumes role: "field (body req) ''role'' = Some (JStr ''admin'')"
  shows "(field (body req) ''name'' = None \<or> field (body req) ''email'' = None \<or>
          field (body req) ''password'' = None \<longrightarrow>
            (\<exists>m. userValidationSchema env (body req) = Some m \<and>
                 put_update env req st = (Response 400 (Text m), st))) \<and>
         (status_of (fst (put_update env req st)) = Some 200 \<longrightarrow>
            (\<exists>n e p. field (body req) ''name'' = Some (JStr n) \<and>
                     field (body req) ''email'' = Some (JStr e) \<and>
                     field (body req) ''password'' = Some (JStr p)))"
proof (intro conjI impI)
  assume missing: "field (body req) ''name'' = None \<or> field (body req) ''email'' = None \<or>
          field (body req) ''password'' = None"
  have "userValidationSchema env (body req) \<noteq> None"
  proof
    assume "userValidationSchema env (body req) = None"
    from valid_body [OF this] missing show False by auto
  qed
  then obtain m where m: "userValidationSchema env (body req) = Some m" by auto
  with role have "put_update env req st = (Response 400 (Text m), st)"
    by (simp add: put_update_def checkRole_passed update_handler_def)
  with m show "\<exists>m. userValidationSchema env (body req) = Some m \<and>
                 put_update env req st = (Response 400 (Text m), st)" by blast
next
  assume ok: "status_of (fst (put_update env req st)) = Some 200"
  have "userValidationSchema env (body req) = None"
  proof (cases "userValidationSchema env (body req)")
    case (Some m)
    with role ok show ?thesis
      by (simp add: put_update_def checkRole_passed update_handler_def)
  qed simp
  from valid_body [OF this]
  show "\<exists>n e p. field (body req) ''name'' = Some (JStr n) \<and>
                     field (body req) ''email'' = Some (JStr e) \<and>
                     field (body req) ''password'' = Some (JStr p)" by blast
qed

text \<open>A body with role and e-mail only.\<close>

theorem update_requires_all_fields_witness:
  "field (body (ann_req partial_body)) ''role'' = Some (JStr ''admin'') \<and>
   field (body (ann_req partial_body)) ''name'' = None \<and>
   userValidationSchema env0 (body (ann_req partial_body)) = Some (quoted ''name'' @ '' is required'') \<and>
   put_update env0 (ann_req partial_body) store0
     = (Response 400 (Text (quoted ''name'' @ '' is required'')), store0)"
proof -
  have role: "field (body (ann_req partial_body)) ''role'' = Some (JStr ''admin'')"
    by (simp add: ann_req_def partial_body_def)
  have missing: "field (body (ann_req partial_body)) ''name'' = None"
    by (simp add: ann_req_def partial_body_def)
  have msg: "userValidationSchema env0 (body (ann_req partial_body))
               = Some (quoted ''name'' @ '' is required'')"
    by (simp add: run_defs)
  from update_requires_all_fields [OF role, of env0 store0] role missing msg show ?thesis by auto
qed

text \<open>
  C6 as stated fails: Ann exists, the body has role \<open>admin\<close> and a new e-mail but no name and
  no password; the answer is 400 with the message that the name is required, and the store is
  unchanged.
\<close>

theorem update_requires_all_fields_counterexample:
  "field partial_body ''role'' = Some (JStr ''admin'') \<and>
   field partial_body ''name'' = None \<and> field partial_body ''password'' = None \<and>
   User_findById env0 store0 (params_id (ann_req partial_body)) = Inr (Some ann) \<and>
   put_update env0 (ann_req partial_body) store0
     = (Response 400 (Text (quoted ''name'' @ '' is required'')), store0)"
  by (simp add: run_defs)

section \<open>Failures of the lower layer\<close>

text \<open>
  C5 (as amended). When the store write of \<open>PUT /update/:id\<close> fails for a valid request
  with role \<open>admin\<close> (the lower layer fails, or the id cannot be cast) the answer is 500
  "Error updating user."; when the save of \<open>POST /create\<close> fails for such a request the
  answer is 400 "Error saving user.". A failing store call gives 500 on delete for every
  request with role \<open>admin\<close>, and on get by id, list and login for every request. The store
  is unchanged in each case.
\<close>

theorem store_failure_status:
  "(field (body req) ''role'' = Some (JStr ''admin'') \<and>
    userValidationSchema env (body req) = None \<and>
    (store_fails env FindByIdAndUpdate \<or> castObjectId env (params_id req) = None) \<longrightarrow>
      put_update env req st = (Response 500 (Text ''Error updating user.''), st)) \<and>
   (field (body req) ''role'' = Some (JStr ''admin'') \<and>
    userValidationSchema env (body req) = None \<and>
    User_findOne env st (field (body req) ''email'') = Inr None \<and> store_fails env Save \<longrightarrow>
      post_create env req st = (Response 400 (Text ''Error saving user.''), st)) \<and>
   (field (body req) ''role'' = Some (JStr ''admin'') \<and>
    (store_fails env FindByIdAndDelete \<or> castObjectId env (params_id req) = None) \<longrightarrow>
      delete_delete env req st = (Response 500 (Text ''Error deleting user.''), st)) \<and>
   (store_fails env FindById \<or> castObjectId env (params_id req) = None \<longrightarrow>
      get_byId env req st = (Response 500 (Text ''Error retrieving user.''), st)) \<and>
   (store_fails env Find \<longrightarrow>
      get_all env req st = (Response 500 (Text ''Error retrieving users.''), st)) \<and>
   (store_fails env FindOne \<longrightarrow>
      post_login env req st = (Response 500 (Text ''Error logging in.''), st))"
proof (intro conjI impI)
  assume a: "field (body req) ''role'' = Some (JStr ''admin'') \<and>
    userValidationSchema env (body req) = None \<and>
    (store_fails env FindByIdAndUpdate \<or> castObjectId env (params_id req) = None)"
  then have role: "field (body req) ''role'' = Some (JStr ''admin'')"
    and valid: "userValidationSchema env (body req) = None"
    and f: "store_fails env FindByIdAndUpdate \<or> castObjectId env (params_id req) = None"
    by simp_all
  from update_handler_valid [OF valid, of st] obtain p where
    "update_handler env req st =
      (case User_findByIdAndUpdate env st (params_id req)
              (set_field (body req) ''password'' (JStr (bcrypt_hash env p (salt env)))) of
         Inr (None, st') \<Rightarrow> (Response 404 (Text ''User not found.''), st')
       | Inr (Some updatedUser, st') \<Rightarrow> (Response 200 (UserDoc updatedUser), st')
       | Inl err \<Rightarrow> (Response 500 (Text ''Error updating user.''), st))"
    by blast
  moreover from f have "\<exists>err. User_findByIdAndUpdate env st (params_id req)
      (set_field (body req) ''password'' (JStr (bcrypt_hash env p (salt env)))) = Inl err"
    by (auto simp: User_findByIdAndUpdate_def)
  ultimately show "put_update env req st = (Response 500 (Text ''Error updating user.''), st)"
    using role by (auto simp: put_update_def checkRole_passed)
next
  assume a: "field (body req) ''role'' = Some (JStr ''admin'') \<and>
    userValidationSchema env (body req) = None \<and>
    User_findOne env st (field (body req) ''email'') = Inr None \<and> store_fails env Save"
  then have role: "field (body req) ''role'' = Some (JStr ''admin'')"
    and valid: "userValidationSchema env (body req) = None"
    by simp_all
  from create_handler_valid [OF valid role, of st] a
  show "post_create env req st = (Response 400 (Text ''Error saving user.''), st)"
    using role by (auto simp: post_create_def checkRole_passed)
next
  assume "field (body req) ''role'' = Some (JStr ''admin'') \<and>
    (store_fails env FindByIdAndDelete \<or> castObjectId env (params_id req) = None)"
  then show "delete_delete env req st = (Response 500 (Text ''Error deleting user.''), st)"
    by (auto simp: delete_delete_def checkRole_passed delete_handler_def
        User_findByIdAndDelete_def)
next
  assume "store_fails env FindById \<or> castObjectId env (params_id req) = None"
  then show "get_byId env req st = (Response 500 (Text ''Error retrieving user.''), st)"
    by (auto simp: get_byId_def User_findById_def)
next
  assume "store_fails env Find"
  then show "get_all env req st = (Response 500 (Text ''Error retrieving users.''), st)"
    by (simp add: get_all_def User_find_def)
next
  assume "store_fails env FindOne"
  then show "post_login env req st = (Response 500 (Text ''Error logging in.''), st)"
    by (simp add: post_login_def User_findOne_def)
qed

text \<open>Each route against a lower layer that fails.\<close>

theorem store_failure_status_witness:
  "field (body (ann_req (bob_body ''admin''))) ''role'' = Some (JStr ''admin'') \<and>
   userValidationSchema env_down (body (ann_req (bob_body ''admin''))) = None \<and>
   store_fails env_down FindByIdAndUpdate \<and>
   put_update env_down (ann_req (bob_body ''admin'')) store0
     = (Response 500 (Text ''Error updating user.''), store0) \<and>
   userValidationSchema env_save_down (body (ann_req (bob_body ''admin''))) = None \<and>
   User_findOne env_save_down store0
     (field (body (ann_req (bob_body ''admin''))) ''email'') = Inr None \<and>
   store_fails env_save_down Save \<and>
   post_create env_save_down (ann_req (bob_body ''admin'')) store0
     = (Response 400 (Text ''Error saving user.''), store0) \<and>
   field (body (ann_req admin_only_body)) ''role'' = Some (JStr ''admin'') \<and>
   store_fails env_down FindByIdAndDelete \<and>
   delete_delete env_down (ann_req admin_only_body) store0
     = (Response 500 (Text ''Error deleting user.''), store0) \<and>
   store_fails env_down FindById \<and>
   get_byId env_down (ann_req JNull) store0
     = (Response 500 (Text ''Error retrieving user.''), store0) \<and>
   store_fails env_down Find \<and>
   get_all env_down (ann_req JNull) store0
     = (Response 500 (Text ''Error retrieving users.''), store0) \<and>
   store_fails env_down FindOne \<and>
   post_login env_down (ann_req (login_body ''pw1'')) store0
     = (Response 500 (Text ''Error logging in.''), store0)"
proof -
  have role: "field (body (ann_req (bob_body ''admin''))) ''role'' = Some (JStr ''admin'')"
    by (simp add: ann_req_def bob_body_def)
  have role': "field (body (ann_req admin_only_body)) ''role'' = Some (JStr ''admin'')"
    by (simp add: ann_req_def admin_only_body_def)
  have valid: "userValidationSchema env_down (body (ann_req (bob_body ''admin''))) = None"
    by (simp add: run_defs)
  have valid': "userValidationSchema env_save_down (body (ann_req (bob_body ''admin''))) = None"
    by (simp add: run_defs)
  have down: "store_fails env_down FindByIdAndUpdate" "store_fails env_down FindByIdAndDelete"
    "store_fails env_down FindById" "store_fails env_down Find" "store_fails env_down FindOne"
    by (simp_all add: env_down_def)
  have look: "User_findOne env_save_down store0
     (field (body (ann_req (bob_body ''admin''))) ''email'') = Inr None"
    "store_fails env_save_down Save"
    by (simp_all add: run_defs)
  note u = store_failure_status [of "ann_req (bob_body ''admin'')" env_down store0, THEN conjunct1, rule_format]
  note c = store_failure_status [of "ann_req (bob_body ''admin'')" env_save_down store0,
                THEN conjunct2, THEN conjunct1, rule_format]
  note d = store_failure_status [of "ann_req admin_only_body" env_down store0,
                THEN conjunct2, THEN conjunct2, THEN conjunct1, rule_format]
  note g = store_failure_status [of "ann_req JNull" env_down store0,
                THEN conjunct2, THEN conjunct2, THEN conjunct2, THEN conjunct1, rule_format]
  note a = store_failure_status [of "ann_req JNull" env_down store0,
                THEN conjunct2, THEN conjunct2, THEN conjunct2, THEN conjunct2,
                THEN conjunct1, rule_format]
  note l = store_failure_status [of "ann_req (login_body ''pw1'')" env_down store0,
                THEN conjunct2, THEN conjunct2, THEN conjunct2, THEN conjunct2,
                THEN conjunct2, rule_format]
  have ru: "put_update env_down (ann_req (bob_body ''admin'')) store0
     = (Response 500 (Text ''Error updating user.''), store0)"
    using u role valid down(1) by blast
  have rc: "post_create env_save_down (ann_req (bob_body ''admin'')) store0
     = (Response 400 (Text ''Error saving user.''), store0)"
    using c role valid' look by blast
  have rd: "delete_delete env_down (ann_req admin_only_body) store0
     = (Response 500 (Text ''Error deleting user.''), store0)"
    using d role' down(2) by blast
  have rg: "get_byId env_down (ann_req JNull) store0
     = (Response 500 (Text ''Error retrieving user.''), store0)"
    using g down(3) by blast
  have ra: "get_all env_down (ann_req JNull) store0
     = (Response 500 (Text ''Error retrieving users.''), store0)"
    using a down(4) by blast
  have rl: "post_login env_down (ann_req (login_body ''pw1'')) store0
     = (Response 500 (Text ''Error logging in.''), store0)"
    using l down(5) by blast
  show ?thesis
    by (intro conjI role valid down ru valid' look rc role' rd rg ra rl)
qed

text \<open>
  C5 as stated fails: a valid update with role \<open>admin\<close> whose store call fails is answered
  500, not 400.
\<close>

theorem store_failure_status_counterexample:
  "store_fails env_down FindByIdAndUpdate \<and>
   put_update env_down (ann_req (ann_body ''admin'')) store0
     = (Response 500 (Text ''Error updating user.''), store0) \<and>
   status_of (fst (put_update env_down (ann_req (ann_body ''admin'')) store0)) \<noteq> Some 400"
  by (simp add: run_defs)

text \<open>The lookup of \<open>POST /create\<close> is outside the \<open>try\<close>: when it fails, the handler answers nothing.\<close>

lemma create_lookup_failure_unhandled:
  assumes role: "field (body req) ''role'' = Some (JStr ''admin'')"
    and valid: "userValidationSchema env (body req) = None"
    and f: "store_fails env FindOne"
  shows "post_create env req st = (Unhandled, st)"
  using role valid f
  by (simp add: post_create_def checkRole_passed create_handler_def User_findOne_def)

section \<open>Reading after a delete\<close>

lemma find_after_deleteOne:
  "distinct (map u_id st) \<Longrightarrow> List.find (\<lambda>u. u_id u = oid) (deleteOne oid st) = None"
proof (induction st)
  case Nil
  show ?case by simp
next
  case (Cons a st)
  show ?case
  proof (cases "u_id a = oid")
    case True
    with Cons.prems have "oid \<notin> u_id ` set st" by auto
    then have "List.find (\<lambda>u. u_id u = oid) st = None"
      unfolding find_None_iff by blast
    with True show ?thesis by simp
  next
    case False
    with Cons show ?thesis by simp
  qed
qed

lemma delete_handler_200:
  assumes "delete_handler env req st = (Response 200 pl, st')"
  shows "\<exists>oid. castObjectId env (params_id req) = Some oid \<and> st' = deleteOne oid st \<and>
               oid \<in> set (map u_id st)"
  using assms
  by (auto simp: delete_handler_def User_findByIdAndDelete_def dest!: find_id_Some
      split: if_splits option.splits)

text \<open>
  C7. In a store whose ids are distinct, after \<open>DELETE /delete/:id\<close> has answered 200 for an
  id, \<open>GET /byId/:id\<close> with the same id is answered 404 "User not found." when its store
  read does not fail, and is never answered 200 with a user.
\<close>

theorem getById_after_delete:
  assumes ids: "distinct (map u_id st)"
    and del: "delete_delete env req st = (Response 200 pl, st')"
    and same_id: "params_id req' = params_id req"
    and same_cast: "castObjectId env' = castObjectId env"
  shows "(\<not> store_fails env' FindById \<longrightarrow>
            get_byId env' req' st' = (Response 404 (Text ''User not found.''), st')) \<and>
         status_of (fst (get_byId env' req' st')) \<noteq> Some 200"
proof -
  from del have "delete_handler env req st = (Response 200 pl, st')"
    by (cases "field (body req) ''role'' = Some (JStr ''admin'')")
       (simp_all add: delete_delete_def checkRole_def)
  from delete_handler_200 [OF this] obtain oid where
    oid: "castObjectId env (params_id req) = Some oid" and st': "st' = deleteOne oid st"
    by blast
  from ids st' have "List.find (\<lambda>u. u_id u = oid) st' = None"
    by (simp add: find_after_deleteOne)
  with oid same_id same_cast show ?thesis
    by (simp add: get_byId_def User_findById_def)
qed

text \<open>Ann is deleted and then looked up.\<close>

theorem getById_after_delete_witness:
  "distinct (map u_id store0) \<and>
   delete_delete env0 (ann_req (JObj [(''role'', JStr ''admin'')])) store0
     = (Response 200 (Text ''User deleted.''), []) \<and>
   \<not> store_fails env0 FindById \<and>
   get_byId env0 (ann_req JNull) [] = (Response 404 (Text ''User not found.''), [])"
proof -
  have ids: "distinct (map u_id store0)"
    by (simp add: store0_def)
  have del: "delete_delete env0 (ann_req (JObj [(''role'', JStr ''admin'')])) store0
     = (Response 200 (Text ''User deleted.''), [])"
    by (simp add: run_defs)
  have same_id: "params_id (ann_req JNull) = params_id (ann_req (JObj [(''role'', JStr ''admin'')]))"
    by (simp add: ann_req_def)
  have up: "\<not> store_fails env0 FindById"
    by (simp add: env0_def)
  from getById_after_delete [OF ids del same_id refl] ids del up show ?thesis by blast
qed

section \<open>Login\<close>









section \<open>The ids of the store stay distinct\<close>

text \<open>
  The hypothesis of distinct ids is an invariant of the service: every route takes a store
  with distinct ids to one with distinct ids.
\<close>

lemma deleteOne_subset: "set (deleteOne oid st) \<subseteq> set st"
  by (induction st) auto

lemma deleteOne_distinct: "distinct (map u_id st) \<Longrightarrow> distinct (map u_id (deleteOne oid st))"
proof (induction st)
  case Nil
  show ?case by simp
next
  case (Cons a st)
  from deleteOne_subset [of oid st] Cons show ?case by auto
qed

lemma create_handler_distinct:
  assumes d: "distinct (map u_id st)"
  shows "distinct (map u_id (snd (create_handler env req st)))"
proof (cases "userValidationSchema env (body req)")
  case (Some m)
  with d show ?thesis by (simp add: create_handler_def)
next
  case None
  show ?thesis
  proof (cases "User_findOne env st (field (body req) ''email'')")
    case (Inl err)
    with None d show ?thesis by (simp add: create_handler_def)
  next
    case (Inr found)
    show ?thesis
    proof (cases found)
      case (Some existingUser)
      with None Inr d show ?thesis by (simp add: create_handler_def)
    next
      case nf: None
      with None Inr d show ?thesis
        by (auto simp: create_handler_def User_save_def User_new_def Let_def
            split: sum.splits option.splits json.splits if_splits)
    qed
  qed
qed

lemma handle_distinct_ids:
  assumes d: "distinct (map u_id st)"
  shows "distinct (map u_id (snd (handle env r req st)))"
proof (cases r)
  case Root
  with d show ?thesis by (simp add: get_root_def)
next
  case Create
  with d create_handler_distinct [OF d, of env req] show ?thesis
    by (simp add: post_create_def checkRole_def Let_def)
next
  case All
  with d show ?thesis by (simp add: get_all_store)
next
  case ById
  with d show ?thesis by (simp add: get_byId_store)
next
  case Update
  with d show ?thesis by (simp add: put_update_ids)
next
  case Delete
  from delete_handler_store [of env req st] d
  have "distinct (map u_id (snd (delete_handler env req st)))"
    by (auto simp: deleteOne_distinct)
  with Delete d show ?thesis
    by (simp add: delete_delete_def checkRole_def Let_def)
next
  case Login
  with d show ?thesis by (simp add: post_login_store)
qed

end
